theory Spec2Isabelle
  imports Main
begin

section \<open>JavaScript values, objects and thrown errors\<close>

text \<open>
  The values that travel through \<open>Record<string, unknown>\<close> option bags, request bodies
  and settings. A number is kept as an integer: every number literal of the provisioning
  code is one. An object is its list of own properties in insertion order.
\<close>

datatype jsval =
    JUndefined
  | JNull
  | JBool bool
  | JNum int
  | JStr string
  | JArr "jsval list"
  | JObj "(string \<times> jsval) list"

text \<open>\<open>obj[k]\<close> on a property list: \<open>undefined\<close> when the key is missing.\<close>

fun lookup :: "(string \<times> jsval) list \<Rightarrow> string \<Rightarrow> jsval" where
  "lookup [] k = JUndefined"
| "lookup ((k', v) # kvs) k = (if k' = k then v else lookup kvs k)"

text \<open>
  \<open>v.k\<close> for a key that no primitive and no array carries (\<open>googleAuth\<close>,
  \<open>clientId\<close>, \<open>clientSecret\<close>): only an object can answer with something else than
  \<open>undefined\<close>. The code reads it on truthy values only, so the read never throws.
\<close>

fun get_prop :: "jsval \<Rightarrow> string \<Rightarrow> jsval" where
  "get_prop (JObj kvs) k = lookup kvs k"
| "get_prop v k = JUndefined"

text \<open>\<open>a ?? b\<close>\<close>

definition nullish :: "jsval \<Rightarrow> jsval \<Rightarrow> jsval" where
  "nullish a b = (if a = JUndefined \<or> a = JNull then b else a)"

text \<open>The truth value of \<open>if (v)\<close>.\<close>

fun truthy :: "jsval \<Rightarrow> bool" where
  "truthy JUndefined = False"
| "truthy JNull = False"
| "truthy (JBool b) = b"
| "truthy (JNum n) = (n \<noteq> 0)"
| "truthy (JStr s) = (s \<noteq> [])"
| "truthy (JArr vs) = True"
| "truthy (JObj kvs) = True"

text \<open>\<open>obj.k = v\<close>: an existing property keeps its place, a new one goes last.\<close>

fun assign :: "string \<Rightarrow> jsval \<Rightarrow> (string \<times> jsval) list \<Rightarrow> (string \<times> jsval) list" where
  "assign k v [] = [(k, v)]"
| "assign k v ((k', v') # kvs) = (if k' = k then (k, v) # kvs else (k', v') # assign k v kvs)"

text \<open>\<open>Object.assign(target, source)\<close>: the source's properties are set one by one.\<close>

fun Object_assign :: "(string \<times> jsval) list \<Rightarrow> (string \<times> jsval) list \<Rightarrow> (string \<times> jsval) list" where
  "Object_assign target [] = target"
| "Object_assign target ((k, v) # source) = Object_assign (assign k v target) source"

text \<open>
  A thrown value: an \<open>Error\<close> instance with its \<open>message\<close>, or anything else with the
  text \<open>String(error)\<close> gives for it.
\<close>

datatype js_error = Error string | Thrown string

text \<open>\<open>error instanceof Error ? error.message : String(error)\<close>\<close>

fun errorMsg :: "js_error \<Rightarrow> string" where
  "errorMsg (Error message) = message"
| "errorMsg (Thrown text) = text"

text \<open>The decimal text a template literal gives for a length or a size.\<close>

definition digit :: "nat \<Rightarrow> char" where
  "digit d = char_of (48 + d)"

fun decimal :: "nat \<Rightarrow> string" where
  "decimal n = (if n < 10 then [digit n] else decimal (n div 10) @ [digit (n mod 10)])"

declare decimal.simps [simp del]

definition dq :: string where
  "dq = [CHR 0x22]"

definition quoted :: "string \<Rightarrow> string" where
  "quoted s = dq @ s @ dq"

text \<open>The three glyphs that open a progress line, as their UTF-8 bytes.\<close>

definition check_mark :: string where
  "check_mark = [CHR 0xE2, CHR 0x9C, CHR 0x93]"

definition ballot_x :: string where
  "ballot_x = [CHR 0xE2, CHR 0x9C, CHR 0x97]"

definition white_circle :: string where
  "white_circle = [CHR 0xE2, CHR 0x97, CHR 0x8B]"

section \<open>Computations that may throw\<close>

text \<open>
  An asynchronous call either resolves with a value or rejects with a thrown value, and
  may change the state it runs in. \<open>bind\<close> is sequencing with \<open>await\<close>: a rejection skips
  the rest. \<open>try_catch\<close> is the \<open>try { ... } catch (error) { ... }\<close> block.
\<close>

type_synonym ('s, 'a) js = "'s \<Rightarrow> (js_error + 'a) \<times> 's"

definition return :: "'a \<Rightarrow> ('s, 'a) js" where
  "return x = (\<lambda>s. (Inr x, s))"

definition bind :: "('s, 'a) js \<Rightarrow> ('a \<Rightarrow> ('s, 'b) js) \<Rightarrow> ('s, 'b) js" where
  "bind m f = (\<lambda>s. case m s of (Inl e, s') \<Rightarrow> (Inl e, s') | (Inr x, s') \<Rightarrow> f x s')"

definition try_catch :: "('s, 'a) js \<Rightarrow> (js_error \<Rightarrow> ('s, 'a) js) \<Rightarrow> ('s, 'a) js" where
  "try_catch m h = (\<lambda>s. case m s of (Inl e, s') \<Rightarrow> h e s' | (Inr x, s') \<Rightarrow> (Inr x, s'))"

text \<open>How a block ends: it falls through with a value, or it ran a \<open>return\<close> statement.\<close>

datatype ('a, 'r) completion = Normal 'a | Returned 'r

section \<open>Collection schemas\<close>

datatype field_type =
  Text | Number | Bool | Email | Url | Date | Select | Json | File | Relation | Editor

fun field_type_str :: "field_type \<Rightarrow> string" where
  "field_type_str Text = ''text''"
| "field_type_str Number = ''number''"
| "field_type_str Bool = ''bool''"
| "field_type_str Email = ''email''"
| "field_type_str Url = ''url''"
| "field_type_str Date = ''date''"
| "field_type_str Select = ''select''"
| "field_type_str Json = ''json''"
| "field_type_str File = ''file''"
| "field_type_str Relation = ''relation''"
| "field_type_str Editor = ''editor''"

record FieldSchema =
  field_name :: string
  field_type :: field_type
  required :: "bool option"
  options :: "(string \<times> jsval) list option"

datatype collection_type = Base | Auth | View

fun collection_type_str :: "collection_type \<Rightarrow> string" where
  "collection_type_str Base = ''base''"
| "collection_type_str Auth = ''auth''"
| "collection_type_str View = ''view''"

text \<open>
  An API rule slot, \<open>string | null\<close> and optional: the empty string is public, \<open>null\<close> is
  locked, and the slot may be left out.
\<close>

datatype rule = RuleUndefined | RuleNull | Rule string

fun rule_val :: "rule \<Rightarrow> jsval" where
  "rule_val RuleUndefined = JUndefined"
| "rule_val RuleNull = JNull"
| "rule_val (Rule r) = JStr r"

record CollectionSchema =
  name :: string
  coll_type :: collection_type
  schema_fields :: "FieldSchema list"
  indexes :: "string list option"
  listRule :: rule
  viewRule :: rule
  createRule :: rule
  updateRule :: rule
  deleteRule :: rule

definition auth_only :: string where
  "auth_only = ''@request.auth.id != '' @ dq @ dq"

definition testItemsCollection :: CollectionSchema where
  "testItemsCollection = \<lparr>
     name = ''test_items'',
     coll_type = Base,
     schema_fields = [
       \<lparr>field_name = ''title'', field_type = Text, required = Some True, options = None\<rparr>,
       \<lparr>field_name = ''description'', field_type = Text, required = Some False, options = None\<rparr>,
       \<lparr>field_name = ''status'', field_type = Text, required = Some False, options = None\<rparr>],
     indexes = None,
     listRule = Rule auth_only,
     viewRule = Rule auth_only,
     createRule = Rule auth_only,
     updateRule = Rule auth_only,
     deleteRule = Rule auth_only\<rparr>"

definition tweetsCollection :: CollectionSchema where
  "tweetsCollection = \<lparr>
     name = ''tweets'',
     coll_type = Base,
     schema_fields = [
       \<lparr>field_name = ''content'', field_type = Text, required = Some True, options = None\<rparr>],
     indexes = None,
     listRule = Rule [],
     viewRule = Rule [],
     createRule = Rule [],
     updateRule = Rule auth_only,
     deleteRule = Rule auth_only\<rparr>"

definition DEFAULT_COLLECTIONS :: "CollectionSchema list" where
  "DEFAULT_COLLECTIONS = [testItemsCollection, tweetsCollection]"

section \<open>The payload builder\<close>

text \<open>\<open>field.options?.[k]\<close>\<close>

definition option_of :: "FieldSchema \<Rightarrow> string \<Rightarrow> jsval" where
  "option_of field k = (case options field of None \<Rightarrow> JUndefined | Some os \<Rightarrow> lookup os k)"

text \<open>The callback of \<open>schema.fields.map\<close> in \<open>buildCollectionPayload\<close>.\<close>

definition buildField :: "FieldSchema \<Rightarrow> jsval" where
  "buildField field =
    (let baseField = [
           (''name'', JStr (field_name field)),
           (''type'', JStr (field_type_str (field_type field))),
           (''required'', JBool (case required field of None \<Rightarrow> False | Some b \<Rightarrow> b))]
     in JObj (
       if field_type field = Text then
         assign ''pattern'' (nullish (option_of field ''pattern'') (JStr []))
           (assign ''max'' (nullish (option_of field ''max'') (JNum 0))
             (assign ''min'' (nullish (option_of field ''min'') (JNum 0)) baseField))
       else if field_type field = Number then
         assign ''noDecimal'' (nullish (option_of field ''noDecimal'') (JBool False))
           (assign ''max'' (nullish (option_of field ''max'') JNull)
             (assign ''min'' (nullish (option_of field ''min'') JNull) baseField))
       else if field_type field = Bool then
         baseField
       else if field_type field = Select then
         assign ''maxSelect'' (nullish (option_of field ''maxSelect'') (JNum 1))
           (assign ''values'' (nullish (option_of field ''values'') (JArr [])) baseField)
       else if field_type field = Relation then
         assign ''maxSelect'' (nullish (option_of field ''maxSelect'') (JNum 1))
           (assign ''cascadeDelete'' (nullish (option_of field ''cascadeDelete'') (JBool False))
             (assign ''collectionId'' (nullish (option_of field ''collectionId'') (JStr [])) baseField))
       else if field_type field = File then
         assign ''mimeTypes'' (nullish (option_of field ''mimeTypes'') (JArr []))
           (assign ''maxSize'' (nullish (option_of field ''maxSize'') (JNum 5242880))
             (assign ''maxSelect'' (nullish (option_of field ''maxSelect'') (JNum 1)) baseField))
       else if field_type field = Editor then
         assign ''convertUrls'' (nullish (option_of field ''convertUrls'') (JBool False)) baseField
       else (case options field of
               None \<Rightarrow> baseField
             | Some os \<Rightarrow> Object_assign baseField os)))"

definition buildCollectionPayload :: "CollectionSchema \<Rightarrow> jsval" where
  "buildCollectionPayload schema =
    (let fields = map buildField (schema_fields schema)
     in JObj [
       (''name'', JStr (name schema)),
       (''type'', JStr (collection_type_str (coll_type schema))),
       (''fields'', JArr fields),
       (''indexes'', (case indexes schema of None \<Rightarrow> JArr [] | Some ixs \<Rightarrow> JArr (map JStr ixs))),
       (''listRule'', rule_val (listRule schema)),
       (''viewRule'', rule_val (viewRule schema)),
       (''createRule'', rule_val (createRule schema)),
       (''updateRule'', rule_val (updateRule schema)),
       (''deleteRule'', rule_val (deleteRule schema))])"

section \<open>The PocketBase client\<close>

text \<open>
  The SDK and the server behind it are not part of this repository: they are a parameter.
  Each call takes the server URL of the client it is made on and the state \<open>'net\<close> of the
  remote side, and resolves or rejects.
\<close>

record CollectionModel =
  model_id :: string
  model_name :: string

record HealthCheckResponse =
  code :: int
  response_message :: string

record 'net sdk =
  api_health_check :: "string \<Rightarrow> ('net, HealthCheckResponse) js"
  api_admins_authWithPassword :: "string \<Rightarrow> string \<Rightarrow> string \<Rightarrow> ('net, string) js"
  api_collections_getFullList :: "string \<Rightarrow> ('net, CollectionModel list) js"
  api_collections_getOne :: "string \<Rightarrow> string \<Rightarrow> ('net, CollectionModel) js"
  api_collections_create :: "string \<Rightarrow> jsval \<Rightarrow> ('net, CollectionModel) js"
  api_collections_update :: "string \<Rightarrow> string \<Rightarrow> jsval \<Rightarrow> ('net, CollectionModel) js"
  api_settings_update :: "string \<Rightarrow> jsval \<Rightarrow> ('net, jsval) js"

section \<open>Provisioning\<close>

record ProvisionResult =
  success :: bool
  created :: "string list"
  skipped :: "string list"
  errors :: "(string \<times> string) list"
  message :: string

text \<open>
  The options of a run. An entry of \<open>errors\<close> is the pair of its \<open>collection\<close> and its
  \<open>error\<close>. The progress sink \<open>onProgress\<close> is an observer: the run keeps the lines it
  hands to it, in order.
\<close>

record ProvisionOptions =
  pbUrl :: string
  adminEmail :: string
  adminPassword :: string
  collections :: "CollectionSchema list option"
  updateExisting :: "bool option"
  settings :: "(string \<times> jsval) list option"

text \<open>
  What a run of \<open>provisionCollections\<close> works on: the remote side, the auth store of its
  client \<open>pb\<close> (the token of the session, if any), its local \<open>result\<close>, and the lines
  given to \<open>onProgress\<close>.
\<close>

record 'net frame =
  net :: 'net
  authStore :: "string option"
  result :: ProvisionResult
  progress :: "string list"

definition call :: "('net, 'a) js \<Rightarrow> ('net frame, 'a) js" where
  "call f = (\<lambda>s. case f (net s) of (r, n) \<Rightarrow> (r, s\<lparr>net := n\<rparr>))"

definition onProgress :: "string \<Rightarrow> ('net frame, unit) js" where
  "onProgress line = (\<lambda>s. (Inr (), s\<lparr>progress := progress s @ [line]\<rparr>))"

definition modify_result :: "(ProvisionResult \<Rightarrow> ProvisionResult) \<Rightarrow> ('net frame, unit) js" where
  "modify_result f = (\<lambda>s. (Inr (), s\<lparr>result := f (result s)\<rparr>))"

definition get_result :: "('net frame, ProvisionResult) js" where
  "get_result = (\<lambda>s. (Inr (result s), s))"

text \<open>
  \<open>pb.admins.authWithPassword\<close>: when the server accepts the credentials the client keeps
  the token in its auth store. \<open>pb.authStore.clear()\<close> drops it.
\<close>

definition pb_authWithPassword :: "'net sdk \<Rightarrow> string \<Rightarrow> string \<Rightarrow> string \<Rightarrow> ('net frame, unit) js" where
  "pb_authWithPassword pb url email password =
     bind (call (api_admins_authWithPassword pb url email password))
       (\<lambda>token s. (Inr (), s\<lparr>authStore := Some token\<rparr>))"

definition authStore_clear :: "('net frame, unit) js" where
  "authStore_clear = (\<lambda>s. (Inr (), s\<lparr>authStore := None\<rparr>))"

text \<open>
  Step 2.5 of \<open>provisionCollections\<close>: the optional settings. \<open>oauth2_body\<close> is the
  body \<open>{ oauth2 }\<close> of the update of \<open>users\<close>.
\<close>

definition oauth2_body :: "(string \<times> jsval) list \<Rightarrow> jsval" where
  "oauth2_body settings' =
     (let oauth2 = JObj [
            (''enabled'', JBool True),
            (''providers'', JArr [JObj [
               (''name'', JStr ''google''),
               (''clientId'', get_prop (lookup settings' ''googleAuth'') ''clientId''),
               (''clientSecret'', get_prop (lookup settings' ''googleAuth'') ''clientSecret'')]])]
      in JObj [(''oauth2'', oauth2)])"

definition updateSettings :: "'net sdk \<Rightarrow> string \<Rightarrow> (string \<times> jsval) list option \<Rightarrow> ('net frame, unit) js" where
  "updateSettings pb url settings' =
    (case settings' of
       None \<Rightarrow> return ()
     | Some s \<Rightarrow>
        if truthy (lookup s ''googleAuth'') then
          bind (onProgress ''Updating collection OAuth2 settings...'') (\<lambda>_.
          try_catch
            (bind (call (api_collections_getOne pb url ''users'')) (\<lambda>users.
             bind (call (api_collections_update pb url (model_id users) (oauth2_body s))) (\<lambda>_.
             onProgress (check_mark @ '' Google OAuth2 enabled on '' @ quoted ''users'' @ '' collection''))))
            (\<lambda>error.
             let msg = errorMsg error
             in bind (modify_result (\<lambda>r. r\<lparr>errors := errors r @ [(''users'', msg)]\<rparr>)) (\<lambda>_.
                onProgress (ballot_x @ '' Failed to update OAuth2 settings: '' @ msg))))
        else
          bind (onProgress ''Updating global PocketBase settings...'') (\<lambda>_.
          try_catch
            (bind (call (api_settings_update pb url (JObj s))) (\<lambda>_.
             onProgress (check_mark @ '' Settings updated successfully'')))
            (\<lambda>error.
             let msg = errorMsg error
             in bind (modify_result (\<lambda>r. r\<lparr>errors := errors r @ [(''_settings'', msg)]\<rparr>)) (\<lambda>_.
                onProgress (ballot_x @ '' Failed to update settings: '' @ msg)))))"

text \<open>Step 3: the body of the loop over the schemas, and the loop.\<close>

definition provisionItem ::
  "'net sdk \<Rightarrow> string \<Rightarrow> bool \<Rightarrow> string list \<Rightarrow> CollectionSchema \<Rightarrow> ('net frame, unit) js" where
  "provisionItem pb url updateExisting' existingCollections schema =
    bind (onProgress (''Processing '' @ quoted (name schema) @ ''...'')) (\<lambda>_.
    if name schema \<in> set existingCollections then
      (if updateExisting' then
         try_catch
           (bind (call (api_collections_getOne pb url (name schema))) (\<lambda>existing.
            bind (call (api_collections_update pb url (model_id existing) (buildCollectionPayload schema))) (\<lambda>_.
            bind (modify_result (\<lambda>r. r\<lparr>created := created r @ [name schema @ '' (updated)'']\<rparr>)) (\<lambda>_.
            onProgress (check_mark @ '' Updated '' @ quoted (name schema))))))
           (\<lambda>error.
            let msg = errorMsg error
            in bind (modify_result (\<lambda>r. r\<lparr>errors := errors r @ [(name schema, msg)]\<rparr>)) (\<lambda>_.
               onProgress (ballot_x @ '' Failed to update '' @ quoted (name schema) @ '': '' @ msg)))
       else
         bind (modify_result (\<lambda>r. r\<lparr>skipped := skipped r @ [name schema]\<rparr>)) (\<lambda>_.
         onProgress (white_circle @ '' Skipped '' @ quoted (name schema) @ '' (already exists)'')))
    else
      try_catch
        (bind (call (api_collections_create pb url (buildCollectionPayload schema))) (\<lambda>_.
         bind (modify_result (\<lambda>r. r\<lparr>created := created r @ [name schema]\<rparr>)) (\<lambda>_.
         onProgress (check_mark @ '' Created '' @ quoted (name schema)))))
        (\<lambda>error.
         let msg = errorMsg error
         in bind (modify_result (\<lambda>r. r\<lparr>errors := errors r @ [(name schema, msg)]\<rparr>)) (\<lambda>_.
            onProgress (ballot_x @ '' Failed to create '' @ quoted (name schema) @ '': '' @ msg))))"

fun provisionEach ::
  "'net sdk \<Rightarrow> string \<Rightarrow> bool \<Rightarrow> string list \<Rightarrow> CollectionSchema list \<Rightarrow> ('net frame, unit) js" where
  "provisionEach pb url updateExisting' existingCollections [] = return ()"
| "provisionEach pb url updateExisting' existingCollections (schema # rest) =
     bind (provisionItem pb url updateExisting' existingCollections schema)
       (\<lambda>_. provisionEach pb url updateExisting' existingCollections rest)"

text \<open>The final result: the flag and the summary line.\<close>

definition finalResult :: "ProvisionResult \<Rightarrow> ProvisionResult" where
  "finalResult r =
    (if length (errors r) > 0 then
       r\<lparr>success := False,
         message := ''Completed with '' @ decimal (length (errors r)) @ '' error(s)''\<rparr>
     else if length (created r) = 0 \<and> length (skipped r) > 0 then
       r\<lparr>message := ''All '' @ decimal (length (skipped r)) @ '' collection(s) already exist''\<rparr>
     else
       r\<lparr>message := ''Successfully created '' @ decimal (length (created r)) @ '' collection(s)''\<rparr>)"

text \<open>
  \<open>provisionCollections\<close>. The client \<open>new PocketBase(pbUrl)\<close> starts with an empty auth
  store; \<open>pb.autoCancellation(false)\<close> changes nothing a sequential run can see.
  \<open>existingCollections\<close> is a \<open>Set\<close> of names: the names in the order of their first
  occurrence, each once. A \<open>return\<close> inside a catch block ends the run with the result as
  it is then; the run gives back its result and the frame it ended in.
\<close>

definition provisionCollections ::
  "'net sdk \<Rightarrow> ProvisionOptions \<Rightarrow> 'net \<Rightarrow> (js_error + ProvisionResult) \<times> 'net frame" where
  "provisionCollections pb opts net0 =
    (let url = pbUrl opts;
         collections' = (case collections opts of None \<Rightarrow> DEFAULT_COLLECTIONS | Some cs \<Rightarrow> cs);
         updateExisting' = (case updateExisting opts of None \<Rightarrow> False | Some b \<Rightarrow> b);
         start = \<lparr>net = net0, authStore = None,
                  result = \<lparr>success = True, created = [], skipped = [], errors = [], message = []\<rparr>,
                  progress = []\<rparr>
     in
      (bind (onProgress ''Authenticating as admin...'') (\<lambda>_.
       bind (try_catch
               (bind (pb_authWithPassword pb url (adminEmail opts) (adminPassword opts)) (\<lambda>_.
                bind (onProgress (check_mark @ '' Admin authentication successful'')) (\<lambda>_.
                return (Normal ()))))
               (\<lambda>error.
                let msg = errorMsg error
                in bind (modify_result (\<lambda>r. r\<lparr>success := False,
                                             message := ''Admin authentication failed: '' @ msg,
                                             errors := errors r @ [(''_admin'', msg)]\<rparr>)) (\<lambda>_.
                   bind get_result (\<lambda>r. return (Returned r))))) (\<lambda>authenticated.
       case authenticated of
         Returned r \<Rightarrow> return r
       | Normal _ \<Rightarrow>
       bind (onProgress ''Fetching existing collections...'') (\<lambda>_.
       bind (try_catch
               (bind (call (api_collections_getFullList pb url)) (\<lambda>allCollections.
                let existingCollections = remdups (map model_name allCollections)
                in bind (onProgress (check_mark @ '' Found '' @ decimal (length existingCollections)
                                       @ '' existing collections'')) (\<lambda>_.
                   return (Normal existingCollections))))
               (\<lambda>error.
                let msg = errorMsg error
                in bind (modify_result (\<lambda>r. r\<lparr>success := False,
                                             message := ''Failed to fetch collections: '' @ msg,
                                             errors := errors r @ [(''_system'', msg)]\<rparr>)) (\<lambda>_.
                   bind get_result (\<lambda>r. return (Returned r))))) (\<lambda>fetched.
       case fetched of
         Returned r \<Rightarrow> return r
       | Normal existingCollections \<Rightarrow>
       bind (updateSettings pb url (settings opts)) (\<lambda>_.
       bind (provisionEach pb url updateExisting' existingCollections collections') (\<lambda>_.
       bind (modify_result finalResult) (\<lambda>_.
       bind authStore_clear (\<lambda>_.
       get_result)))))))))
      start)"

section \<open>The health probe\<close>

record HealthStatus =
  healthy :: bool
  health_message :: string


section \<open>A reference server\<close>

text \<open>
  One remote side to run the code against: a deterministic server whose answers depend
  on a fixed configuration and on the collections it holds, and whose collections change
  only when a create call succeeds. It accepts the administrators listed in \<open>admins\<close>,
  lists its collections when \<open>listable\<close>, refuses to create or update the collections
  named in \<open>refused\<close> and refuses a name it already holds.
\<close>

record server =
  reachable :: bool
  admins :: "(string \<times> string) list"
  listable :: bool
  stored :: "CollectionModel list"
  refused :: "string list"
  settings_locked :: bool

definition ref_health_check :: "string \<Rightarrow> (server, HealthCheckResponse) js" where
  "ref_health_check url = (\<lambda>srv.
     if reachable srv then (Inr \<lparr>code = 200, response_message = ''API is healthy.''\<rparr>, srv)
     else (Inl (Error ''Failed to fetch''), srv))"

definition ref_authWithPassword :: "string \<Rightarrow> string \<Rightarrow> string \<Rightarrow> (server, string) js" where
  "ref_authWithPassword url email password = (\<lambda>srv.
     if (email, password) \<in> set (admins srv) then (Inr (''token:'' @ email), srv)
     else (Inl (Error ''Failed to authenticate.''), srv))"

definition ref_getFullList :: "string \<Rightarrow> (server, CollectionModel list) js" where
  "ref_getFullList url = (\<lambda>srv.
     if listable srv then (Inr (stored srv), srv)
     else (Inl (Error ''Only superusers can perform this action.''), srv))"

definition ref_getOne :: "string \<Rightarrow> string \<Rightarrow> (server, CollectionModel) js" where
  "ref_getOne url idOrName = (\<lambda>srv.
     case find (\<lambda>m. model_id m = idOrName \<or> model_name m = idOrName) (stored srv) of
       None \<Rightarrow> (Inl (Error ''The requested resource was not found.''), srv)
     | Some m \<Rightarrow> (Inr m, srv))"

definition ref_create :: "string \<Rightarrow> jsval \<Rightarrow> (server, CollectionModel) js" where
  "ref_create url body = (\<lambda>srv.
     case get_prop body ''name'' of
       JStr n \<Rightarrow>
         if n \<in> set (refused srv) \<or> n \<in> set (map model_name (stored srv)) then
           (Inl (Error ''Failed to create record.''), srv)
         else
           (let m = \<lparr>model_id = ''id_'' @ n, model_name = n\<rparr>
            in (Inr m, srv\<lparr>stored := stored srv @ [m]\<rparr>))
     | _ \<Rightarrow> (Inl (Error ''Failed to create record.''), srv))"

definition ref_update :: "string \<Rightarrow> string \<Rightarrow> jsval \<Rightarrow> (server, CollectionModel) js" where
  "ref_update url ident body = (\<lambda>srv.
     case find (\<lambda>m. model_id m = ident) (stored srv) of
       None \<Rightarrow> (Inl (Error ''The requested resource was not found.''), srv)
     | Some m \<Rightarrow>
         if model_name m \<in> set (refused srv) then (Inl (Error ''Failed to update record.''), srv)
         else (Inr m, srv))"

definition ref_settings_update :: "string \<Rightarrow> jsval \<Rightarrow> (server, jsval) js" where
  "ref_settings_update url body = (\<lambda>srv.
     if settings_locked srv then (Inl (Error ''Failed to update settings.''), srv)
     else (Inr body, srv))"

definition ref_sdk :: "server sdk" where
  "ref_sdk = \<lparr>
     api_health_check = ref_health_check,
     api_admins_authWithPassword = ref_authWithPassword,
     api_collections_getFullList = ref_getFullList,
     api_collections_getOne = ref_getOne,
     api_collections_create = ref_create,
     api_collections_update = ref_update,
     api_settings_update = ref_settings_update\<rparr>"



text \<open>A fresh server with one administrator, and the options of a plain run against it.\<close>

definition fresh_server :: server where
  "fresh_server = \<lparr>reachable = True, admins = [(''admin@fstack.test'', ''secret'')],
     listable = True, stored = [], refused = [], settings_locked = False\<rparr>"

definition plain_options :: ProvisionOptions where
  "plain_options = \<lparr>pbUrl = ''http://127.0.0.1:8090'', adminEmail = ''admin@fstack.test'',
     adminPassword = ''secret'', collections = None, updateExisting = None, settings = None\<rparr>"

text \<open>The same server once both default collections exist on it.\<close>

definition provisioned_server :: server where
  "provisioned_server = fresh_server\<lparr>stored :=
     [\<lparr>model_id = ''id_test_items'', model_name = ''test_items''\<rparr>,
      \<lparr>model_id = ''id_tweets'', model_name = ''tweets''\<rparr>]\<rparr>"



text \<open>A registry with the built-in \<open>users\<close> collection, and OAuth settings for it.\<close>

definition usersCollection :: CollectionSchema where
  "usersCollection = \<lparr>name = ''users'', coll_type = Auth, schema_fields = [], indexes = None,
     listRule = RuleUndefined, viewRule = RuleUndefined, createRule = RuleUndefined,
     updateRule = RuleUndefined, deleteRule = RuleUndefined\<rparr>"

definition google_settings :: "(string \<times> jsval) list" where
  "google_settings = [(''googleAuth'', JObj [(''enabled'', JBool True),
     (''clientId'', JStr ''client-id''), (''clientSecret'', JStr ''client-secret'')])]"

definition oauth_options :: ProvisionOptions where
  "oauth_options = plain_options\<lparr>collections := Some [usersCollection], settings := Some google_settings\<rparr>"


text \<open>A registry that names a collection \<open>_admin\<close>, provisioned with a wrong password.\<close>

definition adminCollection :: CollectionSchema where
  "adminCollection = usersCollection\<lparr>name := ''_admin'', coll_type := Base\<rparr>"

definition mistyped_options :: ProvisionOptions where
  "mistyped_options = plain_options\<lparr>adminPassword := ''wrong'', collections := Some [adminCollection]\<rparr>"

text \<open>
  A registry that names \<open>tweets\<close> twice, and one that holds a name with the annotation in
  it, run with updates against a server that holds \<open>users\<close>.
\<close>

definition twice_options :: ProvisionOptions where
  "twice_options = plain_options\<lparr>collections := Some [tweetsCollection, tweetsCollection]\<rparr>"

definition annotated_options :: ProvisionOptions where
  "annotated_options = plain_options\<lparr>collections :=
     Some [usersCollection, usersCollection\<lparr>name := ''users (updated)''\<rparr>],
     updateExisting := Some True\<rparr>"

definition annotated_server :: server where
  "annotated_server = fresh_server\<lparr>stored := [\<lparr>model_id = ''_pb_users_auth_'', model_name = ''users''\<rparr>],
     refused := [''users (updated)'']\<rparr>"


definition oauth_result :: ProvisionResult where
  "oauth_result = \<lparr>success = False, created = [''users''], skipped = [],
     errors = [(''users'', ''The requested resource was not found.'')],
     message = ''Completed with 1 error(s)''\<rparr>"

text \<open>A run with a wrong password, and a server that does not list its collections.\<close>

definition wrong_password_options :: ProvisionOptions where
  "wrong_password_options = plain_options\<lparr>adminPassword := ''wrong''\<rparr>"

definition unlistable_server :: server where
  "unlistable_server = fresh_server\<lparr>listable := False\<rparr>"



text \<open>
  A server that holds \<open>users\<close> and refuses to update it, a run that updates existing
  collections, and a run with settings other than OAuth against a server that refuses them.
\<close>

definition locked_users_server :: server where
  "locked_users_server = fresh_server\<lparr>stored := [\<lparr>model_id = ''_pb_users_auth_'', model_name = ''users''\<rparr>],
     refused := [''users'']\<rparr>"

definition users_update_options :: ProvisionOptions where
  "users_update_options = plain_options\<lparr>collections := Some [usersCollection], updateExisting := Some True\<rparr>"

definition smtp_options :: ProvisionOptions where
  "smtp_options = plain_options\<lparr>settings := Some [(''smtp'', JObj [(''enabled'', JBool True)])]\<rparr>"

definition smtp_result :: ProvisionResult where
  "smtp_result = \<lparr>success = False, created = [''test_items'', ''tweets''], skipped = [],
     errors = [(''_settings'', ''Failed to update settings.'')],
     message = ''Completed with 1 error(s)''\<rparr>"

definition locked_settings_server :: server where
  "locked_settings_server = fresh_server\<lparr>settings_locked := True\<rparr>"

section \<open>What a result records\<close>

text \<open>The registry and the update flag a run works with, after the defaults.\<close>

definition registry :: "ProvisionOptions \<Rightarrow> CollectionSchema list" where
  "registry opts = (case collections opts of None \<Rightarrow> DEFAULT_COLLECTIONS | Some cs \<Rightarrow> cs)"

definition updating :: "ProvisionOptions \<Rightarrow> bool" where
  "updating opts = (case updateExisting opts of None \<Rightarrow> False | Some b \<Rightarrow> b)"

text \<open>The results of the two early returns.\<close>

definition auth_failed_result :: "js_error \<Rightarrow> ProvisionResult" where
  "auth_failed_result e = \<lparr>success = False, created = [], skipped = [],
     errors = [(''_admin'', errorMsg e)], message = ''Admin authentication failed: '' @ errorMsg e\<rparr>"

definition fetch_failed_result :: "js_error \<Rightarrow> ProvisionResult" where
  "fetch_failed_result e = \<lparr>success = False, created = [], skipped = [],
     errors = [(''_system'', errorMsg e)], message = ''Failed to fetch collections: '' @ errorMsg e\<rparr>"

text \<open>
  One pass of the loop body over schema \<open>x\<close> takes the result \<open>r\<close> to \<open>r'\<close> by exactly one
  entry: created, updated, skipped or failed. \<open>recorded_all\<close> is one such entry for every
  schema of a list, in order.
\<close>

definition recorded ::
  "bool \<Rightarrow> string list \<Rightarrow> CollectionSchema \<Rightarrow> ProvisionResult \<Rightarrow> ProvisionResult \<Rightarrow> bool" where
  "recorded u ex x r r' \<longleftrightarrow>
     (name x \<notin> set ex \<and> r' = r\<lparr>created := created r @ [name x]\<rparr>)
   \<or> (name x \<in> set ex \<and> u \<and> r' = r\<lparr>created := created r @ [name x @ '' (updated)'']\<rparr>)
   \<or> (name x \<in> set ex \<and> \<not> u \<and> r' = r\<lparr>skipped := skipped r @ [name x]\<rparr>)
   \<or> ((name x \<in> set ex \<longrightarrow> u) \<and> (\<exists>m. r' = r\<lparr>errors := errors r @ [(name x, m)]\<rparr>))"

inductive recorded_all ::
  "bool \<Rightarrow> string list \<Rightarrow> CollectionSchema list \<Rightarrow> ProvisionResult \<Rightarrow> ProvisionResult \<Rightarrow> bool" where
  none: "recorded_all u ex [] r r"
| step: "recorded u ex x r r' \<Longrightarrow> recorded_all u ex xs r' r'' \<Longrightarrow> recorded_all u ex (x # xs) r r''"

text \<open>
  Where a schema name appears in a result: in \<open>created\<close> (as it is, or with the
  \<open>(updated)\<close> annotation), in \<open>skipped\<close>, or as the \<open>collection\<close> of an entry of \<open>errors\<close>.
\<close>

definition in_created :: "string \<Rightarrow> ProvisionResult \<Rightarrow> bool" where
  "in_created n r \<longleftrightarrow> n \<in> set (created r) \<or> n @ '' (updated)'' \<in> set (created r)"

definition in_skipped :: "string \<Rightarrow> ProvisionResult \<Rightarrow> bool" where
  "in_skipped n r \<longleftrightarrow> n \<in> set (skipped r)"

definition in_errors :: "string \<Rightarrow> ProvisionResult \<Rightarrow> bool" where
  "in_errors n r \<longleftrightarrow> n \<in> fst ` set (errors r)"

definition exactly_one :: "bool \<Rightarrow> bool \<Rightarrow> bool \<Rightarrow> bool" where
  "exactly_one a b c \<longleftrightarrow> (a \<and> \<not> b \<and> \<not> c) \<or> (\<not> a \<and> b \<and> \<not> c) \<or> (\<not> a \<and> \<not> b \<and> c)"

definition partitioned :: "CollectionSchema list \<Rightarrow> ProvisionResult \<Rightarrow> bool" where
  "partitioned xs r \<longleftrightarrow>
     (\<forall>x\<in>set xs. exactly_one (in_created (name x) r) (in_skipped (name x) r) (in_errors (name x) r))
   \<and> set (created r) \<inter> set (skipped r) = {}
   \<and> set (created r) \<inter> fst ` set (errors r) = {}
   \<and> set (skipped r) \<inter> fst ` set (errors r) = {}"

text \<open>
  Names as the data model wants them: no name twice, and no name that is another name
  with the \<open>(updated)\<close> annotation behind it.
\<close>

definition plain_names :: "string list \<Rightarrow> bool" where
  "plain_names ns \<longleftrightarrow> distinct ns \<and> (\<forall>a\<in>set ns. \<forall>b\<in>set ns. a \<noteq> b @ '' (updated)'')"

text \<open>
  The entries step 2.5 adds to \<open>errors\<close> when it runs against the remote state \<open>n\<close>:
  none when no settings are given or the update goes through.
\<close>

definition blank :: "'net \<Rightarrow> 'net frame" where
  "blank n = \<lparr>net = n, authStore = None,
     result = \<lparr>success = True, created = [], skipped = [], errors = [], message = []\<rparr>,
     progress = []\<rparr>"

definition settingsErrors ::
  "'net sdk \<Rightarrow> string \<Rightarrow> (string \<times> jsval) list option \<Rightarrow> 'net \<Rightarrow> (string \<times> string) list" where
  "settingsErrors pb url st n = errors (result (snd (updateSettings pb url st (blank n))))"

text \<open>The line that opens the processing of a schema.\<close>

definition processing_line :: "CollectionSchema \<Rightarrow> string" where
  "processing_line x = ''Processing '' @ quoted (name x) @ ''...''"

section \<open>What a payload carries\<close>

text \<open>
  The three attributes every field of a payload starts with, the documented defaults of
  each field kind (the kinds without a branch of their own have none), and the own
  properties of an object.
\<close>

definition baseField :: "FieldSchema \<Rightarrow> (string \<times> jsval) list" where
  "baseField field = [
     (''name'', JStr (field_name field)),
     (''type'', JStr (field_type_str (field_type field))),
     (''required'', JBool (case required field of None \<Rightarrow> False | Some b \<Rightarrow> b))]"

fun documented_defaults :: "field_type \<Rightarrow> (string \<times> jsval) list" where
  "documented_defaults Text = [(''min'', JNum 0), (''max'', JNum 0), (''pattern'', JStr [])]"
| "documented_defaults Number = [(''min'', JNull), (''max'', JNull), (''noDecimal'', JBool False)]"
| "documented_defaults Bool = []"
| "documented_defaults Select = [(''values'', JArr []), (''maxSelect'', JNum 1)]"
| "documented_defaults Relation =
     [(''collectionId'', JStr []), (''cascadeDelete'', JBool False), (''maxSelect'', JNum 1)]"
| "documented_defaults File =
     [(''maxSelect'', JNum 1), (''maxSize'', JNum 5242880), (''mimeTypes'', JArr [])]"
| "documented_defaults Editor = [(''convertUrls'', JBool False)]"
| "documented_defaults other = []"

definition other_kind :: "field_type \<Rightarrow> bool" where
  "other_kind t \<longleftrightarrow> t \<in> {Email, Url, Date, Json}"

fun properties :: "jsval \<Rightarrow> (string \<times> jsval) list" where
  "properties (JObj kvs) = kvs"
| "properties v = []"

text \<open>Three fields: one without options, one that sets one option, one of another kind.\<close>

definition title_field :: FieldSchema where
  "title_field = \<lparr>field_name = ''title'', field_type = Text, required = Some True, options = None\<rparr>"

definition avatar_field :: FieldSchema where
  "avatar_field = \<lparr>field_name = ''avatar'', field_type = File, required = None,
     options = Some [(''maxSelect'', JNum 3)]\<rparr>"

definition contact_field :: FieldSchema where
  "contact_field = \<lparr>field_name = ''contact'', field_type = Email, required = None,
     options = Some [(''exceptDomains'', JArr [JStr ''example.com''])]\<rparr>"

section \<open>Proofs\<close>

lemmas js_defs = bind_def return_def try_catch_def call_def onProgress_def modify_result_def get_result_def

lemma provisionItem_recorded:
  "\<exists>s'. provisionItem pb url u ex x s = (Inr (), s') \<and> authStore s' = authStore s
        \<and> recorded u ex x (result s) (result s')"
  unfolding provisionItem_def recorded_def js_defs
  by (auto split: prod.splits sum.splits simp: Let_def)

lemma provisionEach_recorded:
  "\<exists>s'. provisionEach pb url u ex xs s = (Inr (), s') \<and> authStore s' = authStore s
        \<and> recorded_all u ex xs (result s) (result s')"
proof (induction xs arbitrary: s)
  case Nil
  show ?case by (simp add: return_def recorded_all.none)
next
  case (Cons x xs)
  obtain s1 where 1: "provisionItem pb url u ex x s = (Inr (), s1)" "authStore s1 = authStore s"
      "recorded u ex x (result s) (result s1)"
    using provisionItem_recorded by blast
  obtain s2 where 2: "provisionEach pb url u ex xs s1 = (Inr (), s2)" "authStore s2 = authStore s1"
      "recorded_all u ex xs (result s1) (result s2)"
    using Cons.IH by blast
  show ?case using 1 2 by (auto simp: bind_def intro: recorded_all.step)
qed

lemma updateSettings_effect:
  "updateSettings pb url st s =
     (Inr (), snd (updateSettings pb url st s))
   \<and> authStore (snd (updateSettings pb url st s)) = authStore s
   \<and> result (snd (updateSettings pb url st s)) = (result s)\<lparr>errors := errors (result s) @ settingsErrors pb url st (net s)\<rparr>"
  unfolding updateSettings_def settingsErrors_def blank_def js_defs
  by (auto split: prod.splits sum.splits option.splits simp: Let_def)


lemma recorded_all_grows:
  "recorded_all u ex xs r r' \<Longrightarrow>
     success r' = success r \<and> message r' = message r
   \<and> set (created r) \<subseteq> set (created r') \<and> set (skipped r) \<subseteq> set (skipped r') \<and> set (errors r) \<subseteq> set (errors r')
   \<and> set (created r') \<subseteq> set (created r) \<union> name ` set xs \<union> (\<lambda>x. name x @ '' (updated)'') ` set xs
   \<and> set (skipped r') \<subseteq> set (skipped r) \<union> name ` set xs
   \<and> fst ` set (errors r') \<subseteq> fst ` set (errors r) \<union> name ` set xs"
proof (induction rule: recorded_all.induct)
  case (none u ex r)
  show ?case by simp
next
  case (step u ex x r r' xs r'')
  from step.hyps(1) step.IH show ?case
    unfolding recorded_def by (elim disjE conjE exE) (auto)
qed







lemma provisionItem_progress:
  "\<exists>l. progress (snd (provisionItem pb url u ex x s)) = progress s @ [processing_line x, l]"
  unfolding provisionItem_def processing_line_def js_defs
  by (auto split: prod.splits sum.splits simp: Let_def)

lemma provisionEach_progress:
  "set (progress s) \<union> processing_line ` set xs
     \<subseteq> set (progress (snd (provisionEach pb url u ex xs s)))"
proof (induction xs arbitrary: s)
  case Nil
  show ?case by (simp add: return_def)
next
  case (Cons x xs)
  obtain s1 where 1: "provisionItem pb url u ex x s = (Inr (), s1)"
    using provisionItem_recorded by blast
  obtain l where 2: "progress s1 = progress s @ [processing_line x, l]"
    using provisionItem_progress [of pb url u ex x s] 1 by auto
  have "set (progress s1) \<union> processing_line ` set xs
     \<subseteq> set (progress (snd (provisionEach pb url u ex xs s1)))"
    using Cons.IH .
  then show ?case using 1 2 by (auto simp: bind_def)
qed

lemma run_auth_failed:
  assumes "api_admins_authWithPassword pb (pbUrl opts) (adminEmail opts) (adminPassword opts) net0 = (Inl e, n1)"
  shows "provisionCollections pb opts net0 =
     (Inr (auth_failed_result e),
      \<lparr>net = n1, authStore = None, result = auth_failed_result e,
       progress = [''Authenticating as admin...'']\<rparr>)"
  using assms
  by (simp add: provisionCollections_def pb_authWithPassword_def js_defs auth_failed_result_def Let_def)

lemma run_fetch_failed:
  assumes "api_admins_authWithPassword pb (pbUrl opts) (adminEmail opts) (adminPassword opts) net0 = (Inr tok, n1)"
    and "api_collections_getFullList pb (pbUrl opts) n1 = (Inl e, n2)"
  shows "provisionCollections pb opts net0 =
     (Inr (fetch_failed_result e),
      \<lparr>net = n2, authStore = Some tok, result = fetch_failed_result e,
       progress = [''Authenticating as admin...'', check_mark @ '' Admin authentication successful'',
                   ''Fetching existing collections...'']\<rparr>)"
  using assms
  by (simp add: provisionCollections_def pb_authWithPassword_def js_defs fetch_failed_result_def Let_def)

lemma run_reaches_loop:
  assumes "api_admins_authWithPassword pb (pbUrl opts) (adminEmail opts) (adminPassword opts) net0 = (Inr tok, n1)"
    and "api_collections_getFullList pb (pbUrl opts) n1 = (Inr allCollections, n2)"
  shows "\<exists>r3 fr. provisionCollections pb opts net0 = (Inr (finalResult r3), fr)
       \<and> result fr = finalResult r3 \<and> authStore fr = None
       \<and> processing_line ` set (registry opts) \<subseteq> set (progress fr)
       \<and> recorded_all (updating opts) (remdups (map model_name allCollections)) (registry opts)
            \<lparr>success = True, created = [], skipped = [],
             errors = settingsErrors pb (pbUrl opts) (settings opts) n2, message = []\<rparr> r3"
proof -
  define s2 :: "'a frame" where "s2 = \<lparr>net = n2, authStore = Some tok,
      result = \<lparr>success = True, created = [], skipped = [], errors = [], message = []\<rparr>,
      progress = [''Authenticating as admin...'', check_mark @ '' Admin authentication successful'',
                  ''Fetching existing collections...'',
                  check_mark @ '' Found '' @ decimal (length (remdups (map model_name allCollections)))
                    @ '' existing collections'']\<rparr>"
  define sS where "sS = snd (updateSettings pb (pbUrl opts) (settings opts) s2)"
  have S: "updateSettings pb (pbUrl opts) (settings opts) s2 = (Inr (), sS)"
    "authStore sS = authStore s2"
    "result sS = (result s2)\<lparr>errors := errors (result s2) @ settingsErrors pb (pbUrl opts) (settings opts) (net s2)\<rparr>"
    using updateSettings_effect [of pb "pbUrl opts" "settings opts" s2] unfolding sS_def by simp_all
  obtain s3 where L: "provisionEach pb (pbUrl opts) (updating opts) (remdups (map model_name allCollections)) (registry opts) sS = (Inr (), s3)"
    "recorded_all (updating opts) (remdups (map model_name allCollections)) (registry opts) (result sS) (result s3)"
    using provisionEach_recorded by blast
  have R: "result sS = \<lparr>success = True, created = [], skipped = [],
             errors = settingsErrors pb (pbUrl opts) (settings opts) n2, message = []\<rparr>"
    using S(3) by (simp add: s2_def)
  have "provisionCollections pb opts net0 =
      (Inr (finalResult (result s3)), s3\<lparr>result := finalResult (result s3), authStore := None\<rparr>)"
    using assms S(1) L(1)
    by (simp add: provisionCollections_def pb_authWithPassword_def js_defs Let_def s2_def
        registry_def updating_def authStore_clear_def)
  moreover have "processing_line ` set (registry opts) \<subseteq> set (progress s3)"
    using provisionEach_progress [of sS "registry opts" pb "pbUrl opts" "updating opts"
        "remdups (map model_name allCollections)"] L(1) by simp
  ultimately show ?thesis using L(2) R by auto
qed

lemma finalResult_lists:
  "created (finalResult r) = created r" "skipped (finalResult r) = skipped r"
  "errors (finalResult r) = errors r"
  by (simp_all add: finalResult_def)

lemma finalResult_success:
  "success r \<Longrightarrow> success (finalResult r) = (errors r = [])"
  by (simp add: finalResult_def)

lemma run_cases:
  obtains (auth_failed) e n1 where
      "api_admins_authWithPassword pb (pbUrl opts) (adminEmail opts) (adminPassword opts) net0 = (Inl e, n1)"
  | (fetch_failed) tok n1 e n2 where
      "api_admins_authWithPassword pb (pbUrl opts) (adminEmail opts) (adminPassword opts) net0 = (Inr tok, n1)"
      "api_collections_getFullList pb (pbUrl opts) n1 = (Inl e, n2)"
  | (reaches_loop) tok n1 allCollections n2 where
      "api_admins_authWithPassword pb (pbUrl opts) (adminEmail opts) (adminPassword opts) net0 = (Inr tok, n1)"
      "api_collections_getFullList pb (pbUrl opts) n1 = (Inr allCollections, n2)"
proof -
  obtain a n1 where A: "api_admins_authWithPassword pb (pbUrl opts) (adminEmail opts) (adminPassword opts) net0 = (a, n1)"
    by (cases "api_admins_authWithPassword pb (pbUrl opts) (adminEmail opts) (adminPassword opts) net0")
  show thesis
  proof (cases a)
    case (Inl e)
    then show ?thesis using A auth_failed by simp
  next
    case (Inr tok)
    obtain b n2 where B: "api_collections_getFullList pb (pbUrl opts) n1 = (b, n2)"
      by (cases "api_collections_getFullList pb (pbUrl opts) n1")
    show ?thesis
    proof (cases b)
      case (Inl e)
      then show ?thesis using A B Inr fetch_failed by simp
    next
      case (Inr allCollections)
      then show ?thesis using A B \<open>a = Inr tok\<close> reaches_loop by simp
    qed
  qed
qed

lemma recorded_all_success:
  "recorded_all u ex xs r r' \<Longrightarrow> success r' = success r"
  using recorded_all_grows by blast








lemma recorded_all_errors:
  "recorded_all u ex xs r r' \<Longrightarrow> \<exists>es. errors r' = errors r @ es \<and> fst ` set es \<subseteq> name ` set xs"
proof (induction rule: recorded_all.induct)
  case (none u ex r)
  show ?case by simp
next
  case (step u ex x r r1 xs r2)
  from step.IH obtain es where es: "errors r2 = errors r1 @ es" "fst ` set es \<subseteq> name ` set xs"
    by blast
  from step.hyps(1) consider "errors r1 = errors r" | m where "errors r1 = errors r @ [(name x, m)]"
    unfolding recorded_def by (elim disjE conjE exE) auto
  then show ?case
  proof cases
    case 1
    then show ?thesis using es by auto
  next
    case 2
    then have "errors r2 = errors r @ ((name x, m) # es)" using es by simp
    moreover have "fst ` set ((name x, m) # es) \<subseteq> name ` set (x # xs)" using es(2) by auto
    ultimately show ?thesis by blast
  qed
qed

lemma settingsErrors_getOne_failed:
  assumes "truthy (lookup st ''googleAuth'')"
    and "api_collections_getOne pb url ''users'' n = (Inl e, n')"
  shows "settingsErrors pb url (Some st) n = [(''users'', errorMsg e)]"
  using assms unfolding settingsErrors_def updateSettings_def blank_def js_defs
  by (simp add: Let_def)

lemma settingsErrors_update_failed:
  assumes "truthy (lookup st ''googleAuth'')"
    and "api_collections_getOne pb url ''users'' n = (Inr users, n')"
    and "api_collections_update pb url (model_id users) (oauth2_body st) n' = (Inl e, n'')"
  shows "settingsErrors pb url (Some st) n = [(''users'', errorMsg e)]"
  using assms unfolding settingsErrors_def updateSettings_def blank_def js_defs oauth2_body_def
  by (simp add: Let_def)

lemma settingsErrors_fallback_failed:
  assumes "\<not> truthy (lookup st ''googleAuth'')"
    and "api_settings_update pb url (JObj st) n = (Inl e, n')"
  shows "settingsErrors pb url (Some st) n = [(''_settings'', errorMsg e)]"
  using assms unfolding settingsErrors_def updateSettings_def blank_def js_defs
  by (simp add: Let_def)

lemma run_errors:
  assumes auth: "api_admins_authWithPassword pb (pbUrl opts) (adminEmail opts) (adminPassword opts) net0 = (Inr tok, n1)"
    and fetch: "api_collections_getFullList pb (pbUrl opts) n1 = (Inr allCollections, n2)"
    and run: "fst (provisionCollections pb opts net0) = Inr r"
  shows "\<exists>es. errors r = settingsErrors pb (pbUrl opts) (settings opts) n2 @ es
            \<and> fst ` set es \<subseteq> name ` set (registry opts)"
proof -
  obtain r3 fr where R: "provisionCollections pb opts net0 = (Inr (finalResult r3), fr)"
    "recorded_all (updating opts) (remdups (map model_name allCollections)) (registry opts)
       \<lparr>success = True, created = [], skipped = [],
        errors = settingsErrors pb (pbUrl opts) (settings opts) n2, message = []\<rparr> r3"
    using run_reaches_loop [OF auth fetch] by blast
  have r: "r = finalResult r3" using R(1) run by simp
  show ?thesis using recorded_all_errors [OF R(2)] unfolding r finalResult_lists by simp
qed

lemma oauth_auth:
  "api_admins_authWithPassword ref_sdk (pbUrl oauth_options) (adminEmail oauth_options)
     (adminPassword oauth_options) fresh_server = (Inr ''token:admin@fstack.test'', fresh_server)"
  by code_simp

lemma oauth_fetch:
  "api_collections_getFullList ref_sdk (pbUrl oauth_options) fresh_server = (Inr [], fresh_server)"
  by code_simp

lemma oauth_run:
  "fst (provisionCollections ref_sdk oauth_options fresh_server) = Inr oauth_result"
  by code_simp

lemma smtp_auth:
  "api_admins_authWithPassword ref_sdk (pbUrl smtp_options) (adminEmail smtp_options)
     (adminPassword smtp_options) locked_settings_server =
     (Inr ''token:admin@fstack.test'', locked_settings_server)"
  by code_simp

lemma smtp_fetch:
  "api_collections_getFullList ref_sdk (pbUrl smtp_options) locked_settings_server =
     (Inr [], locked_settings_server)"
  by code_simp

lemma smtp_run:
  "fst (provisionCollections ref_sdk smtp_options locked_settings_server) = Inr smtp_result"
  by code_simp

lemma field_defaults_all:
  "options f = None \<Longrightarrow> buildField f = JObj (baseField f @ documented_defaults (field_type f))"
  by (cases "field_type f") (simp_all add: buildField_def baseField_def option_of_def nullish_def)

lemma field_default_each:
  "(k, d) \<in> set (documented_defaults (field_type f)) \<Longrightarrow> option_of f k = JUndefined
     \<Longrightarrow> get_prop (buildField f) k = d"
  by (cases "field_type f") (auto simp add: buildField_def nullish_def)

lemma field_supplied_each:
  "(k, d) \<in> set (documented_defaults (field_type f)) \<Longrightarrow> option_of f k \<noteq> JUndefined
     \<Longrightarrow> option_of f k \<noteq> JNull \<Longrightarrow> get_prop (buildField f) k = option_of f k"
  by (cases "field_type f") (auto simp add: buildField_def nullish_def)

lemma field_keys:
  "\<not> other_kind (field_type f) \<Longrightarrow>
     map fst (properties (buildField f)) = map fst (baseField f @ documented_defaults (field_type f))"
  by (cases "field_type f") (simp_all add: buildField_def baseField_def other_kind_def)

lemma field_other:
  "other_kind (field_type f) \<Longrightarrow> options f = Some os \<Longrightarrow>
     buildField f = JObj (Object_assign (baseField f) os)"
  by (cases "field_type f") (simp_all add: buildField_def baseField_def other_kind_def)





lemmas ref_defs = ref_sdk_def ref_health_check_def ref_authWithPassword_def ref_getFullList_def
  ref_getOne_def ref_create_def ref_update_def ref_settings_update_def






















section \<open>The claims\<close>


text \<open>
  C5. Every run returns a result whose \<open>success\<close> is true exactly when its \<open>errors\<close> are
  empty. Success does not need a created collection: the run against a server that holds
  both default collections succeeds with \<open>created\<close> empty.
\<close>

theorem success_iff_no_errors:
  "(\<exists>r fr. provisionCollections pb opts net0 = (Inr r, fr) \<and> success r = (errors r = []))
   \<and> fst (provisionCollections ref_sdk plain_options provisioned_server) =
       Inr \<lparr>success = True, created = [], skipped = [''test_items'', ''tweets''], errors = [],
            message = ''All 2 collection(s) already exist''\<rparr>"
proof
  show "fst (provisionCollections ref_sdk plain_options provisioned_server) =
       Inr \<lparr>success = True, created = [], skipped = [''test_items'', ''tweets''], errors = [],
            message = ''All 2 collection(s) already exist''\<rparr>"
    by code_simp
next
  show "\<exists>r fr. provisionCollections pb opts net0 = (Inr r, fr) \<and> success r = (errors r = [])"
  proof (cases pb opts net0 rule: run_cases)
    case (auth_failed e n1)
    then show ?thesis using run_auth_failed [OF auth_failed] by (simp add: auth_failed_result_def)
  next
    case (fetch_failed tok n1 e n2)
    then show ?thesis using run_fetch_failed [OF fetch_failed] by (simp add: fetch_failed_result_def)
  next
    case (reaches_loop tok n1 allCollections n2)
    obtain r3 fr where R: "provisionCollections pb opts net0 = (Inr (finalResult r3), fr)"
      "recorded_all (updating opts) (remdups (map model_name allCollections)) (registry opts)
              \<lparr>success = True, created = [], skipped = [],
               errors = settingsErrors pb (pbUrl opts) (settings opts) n2, message = []\<rparr> r3"
      using run_reaches_loop [OF reaches_loop] by blast
    have "success r3" using recorded_all_success [OF R(2)] by simp
    then have "success (finalResult r3) = (errors (finalResult r3) = [])"
      by (simp add: finalResult_success finalResult_lists)
    then show ?thesis using R(1) by blast
  qed
qed




text \<open>
  The two conditions on the names are needed as well. A name that is twice in the
  registry is created the first time and refused the second; and when \<open>users\<close> is
  updated while the creation of \<open>users (updated)\<close> fails, the one entry of \<open>created\<close>
  reads like the name that is in \<open>errors\<close>.
\<close>

lemma duplicate_names_example:
  "fst (provisionCollections ref_sdk twice_options fresh_server) =
     Inr \<lparr>success = False, created = [''tweets''], skipped = [],
          errors = [(''tweets'', ''Failed to create record.'')],
          message = ''Completed with 1 error(s)''\<rparr>
   \<and> \<not> plain_names (map name (registry twice_options))
   \<and> \<not> partitioned (registry twice_options)
         \<lparr>success = False, created = [''tweets''], skipped = [],
          errors = [(''tweets'', ''Failed to create record.'')],
          message = ''Completed with 1 error(s)''\<rparr>"
  by code_simp

lemma annotated_name_example:
  "fst (provisionCollections ref_sdk annotated_options annotated_server) =
     Inr \<lparr>success = False, created = [''users (updated)''], skipped = [],
          errors = [(''users (updated)'', ''Failed to create record.'')],
          message = ''Completed with 1 error(s)''\<rparr>
   \<and> \<not> plain_names (map name (registry annotated_options))
   \<and> \<not> partitioned (registry annotated_options)
         \<lparr>success = False, created = [''users (updated)''], skipped = [],
          errors = [(''users (updated)'', ''Failed to create record.'')],
          message = ''Completed with 1 error(s)''\<rparr>"
  by code_simp

text \<open>
  C3, as amended. If authentication fails, or authentication succeeds and the listing
  fails, \<open>provisionCollections\<close> returns at once (the remote side is as the failed call
  left it, and no further progress line is written) with \<open>success\<close> false, \<open>created\<close> and
  \<open>skipped\<close> empty, and exactly one error entry, tagged \<open>_admin\<close> for authentication and
  \<open>_system\<close> for the listing. Neither tag is a name of the default registry; a supplied
  registry is free to use them.
\<close>

theorem early_exit:
  "(api_admins_authWithPassword pb (pbUrl opts) (adminEmail opts) (adminPassword opts) net0 = (Inl e, n1) \<longrightarrow>
      fst (provisionCollections pb opts net0) =
        Inr \<lparr>success = False, created = [], skipped = [], errors = [(''_admin'', errorMsg e)],
             message = ''Admin authentication failed: '' @ errorMsg e\<rparr>
      \<and> net (snd (provisionCollections pb opts net0)) = n1
      \<and> progress (snd (provisionCollections pb opts net0)) = [''Authenticating as admin...''])
   \<and> (api_admins_authWithPassword pb (pbUrl opts) (adminEmail opts) (adminPassword opts) net0 = (Inr tok, n1')
      \<and> api_collections_getFullList pb (pbUrl opts) n1' = (Inl e', n2) \<longrightarrow>
      fst (provisionCollections pb opts net0) =
        Inr \<lparr>success = False, created = [], skipped = [], errors = [(''_system'', errorMsg e')],
             message = ''Failed to fetch collections: '' @ errorMsg e'\<rparr>
      \<and> net (snd (provisionCollections pb opts net0)) = n2
      \<and> progress (snd (provisionCollections pb opts net0)) =
           [''Authenticating as admin...'', check_mark @ '' Admin authentication successful'',
            ''Fetching existing collections...''])
   \<and> ''_admin'' \<notin> name ` set DEFAULT_COLLECTIONS
   \<and> ''_system'' \<notin> name ` set DEFAULT_COLLECTIONS"
proof (intro conjI impI)
  assume a: "api_admins_authWithPassword pb (pbUrl opts) (adminEmail opts) (adminPassword opts) net0 = (Inl e, n1)"
  show "fst (provisionCollections pb opts net0) =
        Inr \<lparr>success = False, created = [], skipped = [], errors = [(''_admin'', errorMsg e)],
             message = ''Admin authentication failed: '' @ errorMsg e\<rparr>"
    using run_auth_failed [OF a] by (simp add: auth_failed_result_def)
  show "net (snd (provisionCollections pb opts net0)) = n1"
    using run_auth_failed [OF a] by simp
  show "progress (snd (provisionCollections pb opts net0)) = [''Authenticating as admin...'']"
    using run_auth_failed [OF a] by simp
next
  assume "api_admins_authWithPassword pb (pbUrl opts) (adminEmail opts) (adminPassword opts) net0 = (Inr tok, n1')
      \<and> api_collections_getFullList pb (pbUrl opts) n1' = (Inl e', n2)"
  then have a: "api_admins_authWithPassword pb (pbUrl opts) (adminEmail opts) (adminPassword opts) net0 = (Inr tok, n1')"
    and f: "api_collections_getFullList pb (pbUrl opts) n1' = (Inl e', n2)" by simp_all
  show "fst (provisionCollections pb opts net0) =
        Inr \<lparr>success = False, created = [], skipped = [], errors = [(''_system'', errorMsg e')],
             message = ''Failed to fetch collections: '' @ errorMsg e'\<rparr>"
    using run_fetch_failed [OF a f] by (simp add: fetch_failed_result_def)
  show "net (snd (provisionCollections pb opts net0)) = n2"
    using run_fetch_failed [OF a f] by simp
  show "progress (snd (provisionCollections pb opts net0)) =
           [''Authenticating as admin...'', check_mark @ '' Admin authentication successful'',
            ''Fetching existing collections...'']"
    using run_fetch_failed [OF a f] by simp
next
  show "''_admin'' \<notin> name ` set DEFAULT_COLLECTIONS" by code_simp
  show "''_system'' \<notin> name ` set DEFAULT_COLLECTIONS" by code_simp
qed

text \<open>Witness for C3: a wrong password, and a server that refuses the listing.\<close>

theorem early_exit_witness:
  "fst (provisionCollections ref_sdk wrong_password_options fresh_server) =
     Inr \<lparr>success = False, created = [], skipped = [],
          errors = [(''_admin'', ''Failed to authenticate.'')],
          message = ''Admin authentication failed: Failed to authenticate.''\<rparr>
   \<and> fst (provisionCollections ref_sdk plain_options unlistable_server) =
     Inr \<lparr>success = False, created = [], skipped = [],
          errors = [(''_system'', ''Only superusers can perform this action.'')],
          message = ''Failed to fetch collections: Only superusers can perform this action.''\<rparr>"
proof -
  have a1: "api_admins_authWithPassword ref_sdk (pbUrl wrong_password_options)
      (adminEmail wrong_password_options) (adminPassword wrong_password_options) fresh_server =
      (Inl (Error ''Failed to authenticate.''), fresh_server)"
    by code_simp
  have a2: "api_admins_authWithPassword ref_sdk (pbUrl plain_options)
      (adminEmail plain_options) (adminPassword plain_options) unlistable_server =
      (Inr ''token:admin@fstack.test'', unlistable_server)"
    by code_simp
  have f2: "api_collections_getFullList ref_sdk (pbUrl plain_options) unlistable_server =
      (Inl (Error ''Only superusers can perform this action.''), unlistable_server)"
    by code_simp
  show ?thesis
    using early_exit [where pb = ref_sdk and opts = wrong_password_options and ?net0.0 = fresh_server
        and e = "Error ''Failed to authenticate.''" and ?n1.0 = fresh_server] a1
      early_exit [where pb = ref_sdk and opts = plain_options and ?net0.0 = unlistable_server
        and tok = "''token:admin@fstack.test''" and n1' = unlistable_server
        and e' = "Error ''Only superusers can perform this action.''" and ?n2.0 = unlistable_server] a2 f2
    by simp
qed

text \<open>
  C3 as stated fails on the tag being distinct from any real collection name: a registry
  may declare a collection called \<open>_admin\<close>, and the entry of a failed authentication
  then carries the name of a collection of the registry.
\<close>

theorem sentinel_counterexample:
  "api_admins_authWithPassword ref_sdk (pbUrl mistyped_options) (adminEmail mistyped_options)
     (adminPassword mistyped_options) fresh_server = (Inl (Error ''Failed to authenticate.''), fresh_server)
   \<and> fst (provisionCollections ref_sdk mistyped_options fresh_server) =
       Inr \<lparr>success = False, created = [], skipped = [],
            errors = [(''_admin'', ''Failed to authenticate.'')],
            message = ''Admin authentication failed: Failed to authenticate.''\<rparr>
   \<and> ''_admin'' \<in> name ` set (registry mistyped_options)"
  by code_simp



text \<open>
  C6 fails on the code. When the listing fails after a successful authentication,
  \<open>provisionCollections\<close> returns from the catch block and never reaches
  \<open>pb.authStore.clear()\<close>: the token of the admin session is still in the auth store
  when the result is returned. The run that reaches the end does clear it.
\<close>

theorem session_left_after_fetch_failure:
  "fst (provisionCollections ref_sdk plain_options unlistable_server) =
     Inr \<lparr>success = False, created = [], skipped = [],
          errors = [(''_system'', ''Only superusers can perform this action.'')],
          message = ''Failed to fetch collections: Only superusers can perform this action.''\<rparr>
   \<and> authStore (snd (provisionCollections ref_sdk plain_options unlistable_server)) =
       Some ''token:admin@fstack.test''
   \<and> authStore (snd (provisionCollections ref_sdk plain_options fresh_server)) = None"
  by code_simp




text \<open>
  C10. When settings are given and the run reaches step 2.5: with a truthy \<open>googleAuth\<close>
  key, a failure of the OAuth2 update (the lookup of \<open>users\<close> or the update itself) is the
  first entry of \<open>errors\<close>, tagged with the collection name \<open>users\<close>; on the fallback path
  a failure of the settings update is the first entry, tagged \<open>_settings\<close>. The entries
  behind it are those of the registry's schemas. So the tag \<open>users\<close> does not tell the
  two kinds of failure apart: against a server that refuses to update \<open>users\<close>, the run
  with OAuth settings (which skips the \<open>users\<close> schema) and the run without settings that
  updates the \<open>users\<close> schema return the same \<open>errors\<close>.
\<close>

theorem settings_failure_tag:
  assumes auth: "api_admins_authWithPassword pb (pbUrl opts) (adminEmail opts) (adminPassword opts) net0 = (Inr tok, n1)"
    and fetch: "api_collections_getFullList pb (pbUrl opts) n1 = (Inr allCollections, n2)"
    and run: "fst (provisionCollections pb opts net0) = Inr r"
    and st: "settings opts = Some st"
  shows "(truthy (lookup st ''googleAuth'')
          \<and> (api_collections_getOne pb (pbUrl opts) ''users'' n2 = (Inl e, n3)
             \<or> api_collections_getOne pb (pbUrl opts) ''users'' n2 = (Inr users, n3)
               \<and> api_collections_update pb (pbUrl opts) (model_id users) (oauth2_body st) n3 = (Inl e, n4))
          \<longrightarrow> (\<exists>es. errors r = (''users'', errorMsg e) # es \<and> fst ` set es \<subseteq> name ` set (registry opts)))
       \<and> (\<not> truthy (lookup st ''googleAuth'')
          \<and> api_settings_update pb (pbUrl opts) (JObj st) n2 = (Inl e', n3')
          \<longrightarrow> (\<exists>es. errors r = (''_settings'', errorMsg e') # es \<and> fst ` set es \<subseteq> name ` set (registry opts)))
       \<and> fst (provisionCollections ref_sdk oauth_options locked_users_server) =
            Inr \<lparr>success = False, created = [], skipped = [''users''],
                 errors = [(''users'', ''Failed to update record.'')],
                 message = ''Completed with 1 error(s)''\<rparr>
       \<and> fst (provisionCollections ref_sdk users_update_options locked_users_server) =
            Inr \<lparr>success = False, created = [], skipped = [],
                 errors = [(''users'', ''Failed to update record.'')],
                 message = ''Completed with 1 error(s)''\<rparr>"
proof (intro conjI impI)
  note E = run_errors [OF auth fetch run, unfolded st]
  {
    assume a: "truthy (lookup st ''googleAuth'')
          \<and> (api_collections_getOne pb (pbUrl opts) ''users'' n2 = (Inl e, n3)
             \<or> api_collections_getOne pb (pbUrl opts) ''users'' n2 = (Inr users, n3)
               \<and> api_collections_update pb (pbUrl opts) (model_id users) (oauth2_body st) n3 = (Inl e, n4))"
    then have "settingsErrors pb (pbUrl opts) (Some st) n2 = [(''users'', errorMsg e)]"
      by (elim conjE disjE) (erule (1) settingsErrors_getOne_failed, erule (2) settingsErrors_update_failed)
    then show "\<exists>es. errors r = (''users'', errorMsg e) # es \<and> fst ` set es \<subseteq> name ` set (registry opts)"
      using E by simp
  }
  {
    assume b: "\<not> truthy (lookup st ''googleAuth'')
          \<and> api_settings_update pb (pbUrl opts) (JObj st) n2 = (Inl e', n3')"
    then have "settingsErrors pb (pbUrl opts) (Some st) n2 = [(''_settings'', errorMsg e')]"
      by (elim conjE) (erule (1) settingsErrors_fallback_failed)
    then show "\<exists>es. errors r = (''_settings'', errorMsg e') # es \<and> fst ` set es \<subseteq> name ` set (registry opts)"
      using E by simp
  }
  show "fst (provisionCollections ref_sdk oauth_options locked_users_server) =
            Inr \<lparr>success = False, created = [], skipped = [''users''],
                 errors = [(''users'', ''Failed to update record.'')],
                 message = ''Completed with 1 error(s)''\<rparr>"
    by code_simp
  show "fst (provisionCollections ref_sdk users_update_options locked_users_server) =
            Inr \<lparr>success = False, created = [], skipped = [],
                 errors = [(''users'', ''Failed to update record.'')],
                 message = ''Completed with 1 error(s)''\<rparr>"
    by code_simp
qed

text \<open>
  Witness for C10: OAuth settings against a server without \<open>users\<close>, and other settings
  against a server that refuses them.
\<close>

theorem settings_failure_tag_witness:
  "(\<exists>es. errors oauth_result = (''users'', ''The requested resource was not found.'') # es
         \<and> fst ` set es \<subseteq> name ` set (registry oauth_options))
   \<and> (\<exists>es. errors smtp_result = (''_settings'', ''Failed to update settings.'') # es
         \<and> fst ` set es \<subseteq> name ` set (registry smtp_options))"
proof -
  have st1: "settings oauth_options = Some google_settings" by code_simp
  have g1: "truthy (lookup google_settings ''googleAuth'')" by code_simp
  have one: "api_collections_getOne ref_sdk (pbUrl oauth_options) ''users'' fresh_server =
      (Inl (Error ''The requested resource was not found.''), fresh_server)"
    by code_simp
  have st2: "settings smtp_options = Some [(''smtp'', JObj [(''enabled'', JBool True)])]" by code_simp
  have g2: "\<not> truthy (lookup [(''smtp'', JObj [(''enabled'', JBool True)])] ''googleAuth'')" by code_simp
  have two: "api_settings_update ref_sdk (pbUrl smtp_options)
      (JObj [(''smtp'', JObj [(''enabled'', JBool True)])]) locked_settings_server =
      (Inl (Error ''Failed to update settings.''), locked_settings_server)"
    by code_simp
  have a: "\<exists>es. errors oauth_result = (''users'', errorMsg (Error ''The requested resource was not found.'')) # es
         \<and> fst ` set es \<subseteq> name ` set (registry oauth_options)"
    using settings_failure_tag [OF oauth_auth oauth_fetch oauth_run st1,
        where e = "Error ''The requested resource was not found.''" and ?n3.0 = fresh_server] g1 one
    by blast
  have b: "\<exists>es. errors smtp_result = (''_settings'', errorMsg (Error ''Failed to update settings.'')) # es
         \<and> fst ` set es \<subseteq> name ` set (registry smtp_options)"
    using settings_failure_tag [OF smtp_auth smtp_fetch smtp_run st2,
        where e' = "Error ''Failed to update settings.''" and n3' = locked_settings_server] g2 two
    by blast
  show ?thesis using a b by simp
qed

text \<open>
  C7. For every field, \<open>buildCollectionPayload\<close> emits the name, the type and
  \<open>required\<close> (false when left out), and behind them the attributes of the field's kind:
  with no options at all exactly the documented defaults (text: min 0, max 0, pattern
  empty; number: min null, max null, noDecimal false; bool: nothing; select: values
  empty, maxSelect 1; relation: collectionId empty, cascadeDelete false, maxSelect 1;
  file: maxSelect 1, maxSize 5242880, mimeTypes empty; editor: convertUrls false), and
  with options the default for each attribute they leave out. A field of one of these
  kinds carries these attributes and no other; a field of any other kind is the base
  attributes with the given options merged over them. The payload carries the name, the
  type, the fields in the order of the schema, the indexes (empty when left out) and the
  five rules as they are in the schema.
\<close>

theorem payload_defaults:
  "(options f = None \<longrightarrow> buildField f = JObj (baseField f @ documented_defaults (field_type f)))
   \<and> (\<forall>(k, d)\<in>set (documented_defaults (field_type f)).
         option_of f k = JUndefined \<longrightarrow> get_prop (buildField f) k = d)
   \<and> (\<not> other_kind (field_type f) \<longrightarrow>
         map fst (properties (buildField f)) = map fst (baseField f @ documented_defaults (field_type f)))
   \<and> (other_kind (field_type f) \<and> options f = Some os \<longrightarrow>
         buildField f = JObj (Object_assign (baseField f) os))
   \<and> buildCollectionPayload schema = JObj [
         (''name'', JStr (name schema)),
         (''type'', JStr (collection_type_str (coll_type schema))),
         (''fields'', JArr (map buildField (schema_fields schema))),
         (''indexes'', JArr (case indexes schema of None \<Rightarrow> [] | Some ixs \<Rightarrow> map JStr ixs)),
         (''listRule'', rule_val (listRule schema)),
         (''viewRule'', rule_val (viewRule schema)),
         (''createRule'', rule_val (createRule schema)),
         (''updateRule'', rule_val (updateRule schema)),
         (''deleteRule'', rule_val (deleteRule schema))]"
proof (intro conjI)
  show "options f = None \<longrightarrow> buildField f = JObj (baseField f @ documented_defaults (field_type f))"
    using field_defaults_all by blast
  show "\<forall>(k, d)\<in>set (documented_defaults (field_type f)).
         option_of f k = JUndefined \<longrightarrow> get_prop (buildField f) k = d"
    using field_default_each by blast
  show "\<not> other_kind (field_type f) \<longrightarrow>
         map fst (properties (buildField f)) = map fst (baseField f @ documented_defaults (field_type f))"
    using field_keys by blast
  show "other_kind (field_type f) \<and> options f = Some os \<longrightarrow>
         buildField f = JObj (Object_assign (baseField f) os)"
    using field_other by blast
  show "buildCollectionPayload schema = JObj [
         (''name'', JStr (name schema)),
         (''type'', JStr (collection_type_str (coll_type schema))),
         (''fields'', JArr (map buildField (schema_fields schema))),
         (''indexes'', JArr (case indexes schema of None \<Rightarrow> [] | Some ixs \<Rightarrow> map JStr ixs)),
         (''listRule'', rule_val (listRule schema)),
         (''viewRule'', rule_val (viewRule schema)),
         (''createRule'', rule_val (createRule schema)),
         (''updateRule'', rule_val (updateRule schema)),
         (''deleteRule'', rule_val (deleteRule schema))]"
    by (simp add: buildCollectionPayload_def split: option.splits)
qed

text \<open>
  Witness for C7: a text field without options, a file field that sets only
  \<open>maxSelect\<close>, and an email field with an option of its own.
\<close>

theorem payload_defaults_witness:
  "buildField title_field = JObj [(''name'', JStr ''title''), (''type'', JStr ''text''),
       (''required'', JBool True), (''min'', JNum 0), (''max'', JNum 0), (''pattern'', JStr [])]
   \<and> get_prop (buildField avatar_field) ''maxSize'' = JNum 5242880
   \<and> map fst (properties (buildField avatar_field)) =
       [''name'', ''type'', ''required'', ''maxSelect'', ''maxSize'', ''mimeTypes'']
   \<and> buildField contact_field = JObj [(''name'', JStr ''contact''), (''type'', JStr ''email''),
       (''required'', JBool False), (''exceptDomains'', JArr [JStr ''example.com''])]"
proof -
  have t: "options title_field = None" by code_simp
  have t': "JObj (baseField title_field @ documented_defaults (field_type title_field)) =
      JObj [(''name'', JStr ''title''), (''type'', JStr ''text''),
       (''required'', JBool True), (''min'', JNum 0), (''max'', JNum 0), (''pattern'', JStr [])]"
    by code_simp
  have a: "(''maxSize'', JNum 5242880) \<in> set (documented_defaults (field_type avatar_field))"
    by code_simp
  have a': "option_of avatar_field ''maxSize'' = JUndefined" by code_simp
  have k: "\<not> other_kind (field_type avatar_field)" by code_simp
  have k': "map fst (baseField avatar_field @ documented_defaults (field_type avatar_field)) =
      [''name'', ''type'', ''required'', ''maxSelect'', ''maxSize'', ''mimeTypes'']"
    by code_simp
  have c: "other_kind (field_type contact_field)
      \<and> options contact_field = Some [(''exceptDomains'', JArr [JStr ''example.com''])]"
    by code_simp
  have c': "JObj (Object_assign (baseField contact_field) [(''exceptDomains'', JArr [JStr ''example.com''])]) =
      JObj [(''name'', JStr ''contact''), (''type'', JStr ''email''),
       (''required'', JBool False), (''exceptDomains'', JArr [JStr ''example.com''])]"
    by code_simp
  have "options title_field = None \<longrightarrow>
      buildField title_field = JObj (baseField title_field @ documented_defaults (field_type title_field))"
    by (rule payload_defaults [where f = title_field, THEN conjunct1])
  then have 1: "buildField title_field = JObj (baseField title_field @ documented_defaults (field_type title_field))"
    using t by (rule mp)
  have "\<forall>(k, d)\<in>set (documented_defaults (field_type avatar_field)).
         option_of avatar_field k = JUndefined \<longrightarrow> get_prop (buildField avatar_field) k = d"
    by (rule payload_defaults [where f = avatar_field, THEN conjunct2, THEN conjunct1])
  then have "case (''maxSize'', JNum 5242880) of (k, d) \<Rightarrow>
      option_of avatar_field k = JUndefined \<longrightarrow> get_prop (buildField avatar_field) k = d"
    using a by (rule bspec)
  then have "option_of avatar_field ''maxSize'' = JUndefined \<longrightarrow>
      get_prop (buildField avatar_field) ''maxSize'' = JNum 5242880"
    by (simp only: prod.case)
  then have 2: "get_prop (buildField avatar_field) ''maxSize'' = JNum 5242880"
    using a' by (rule mp)
  have "\<not> other_kind (field_type avatar_field) \<longrightarrow>
      map fst (properties (buildField avatar_field)) =
      map fst (baseField avatar_field @ documented_defaults (field_type avatar_field))"
    by (rule payload_defaults [where f = avatar_field, THEN conjunct2, THEN conjunct2, THEN conjunct1])
  then have 3: "map fst (properties (buildField avatar_field)) =
      map fst (baseField avatar_field @ documented_defaults (field_type avatar_field))"
    using k by (rule mp)
  have "other_kind (field_type contact_field)
      \<and> options contact_field = Some [(''exceptDomains'', JArr [JStr ''example.com''])] \<longrightarrow>
      buildField contact_field =
      JObj (Object_assign (baseField contact_field) [(''exceptDomains'', JArr [JStr ''example.com''])])"
    by (rule payload_defaults [where f = contact_field, THEN conjunct2, THEN conjunct2,
          THEN conjunct2, THEN conjunct1])
  then have 4: "buildField contact_field =
      JObj (Object_assign (baseField contact_field) [(''exceptDomains'', JArr [JStr ''example.com''])])"
    using c by (rule mp)
  show ?thesis unfolding 1 2 3 4 t' k' c' by (intro conjI refl)
qed




end
